theory Spec2Isabelle
  imports Main "HOL-Library.List_Lexorder" "HOL-Library.Multiset"
begin

section \<open>Python strings\<close>

text \<open>
  A Python \<^verbatim>\<open>str\<close> is a sequence of Unicode code points. It is modelled as a list of
  natural numbers, so that slicing (\<^verbatim>\<open>line[1:]\<close>) removes one code point, also for the
  bullet glyph U+2022, and so that the lexicographic order of lists
  (theory \<open>List_Lexorder\<close> of the library) is Python's order on strings.
  \<open>ustr\<close> turns an ASCII literal into such a string.

  The whitespace set of \<^verbatim>\<open>str.strip\<close> and of the pattern \<^verbatim>\<open>\s\<close> is finite and is
  written out in full. The case mapping of \<^verbatim>\<open>str.lower\<close> and the alphanumeric
  category behind the pattern \<^verbatim>\<open>\w\<close> are written out for the code points below 256
  (ASCII and Latin-1), where lower-casing works character by character. Beyond that
  range they are tables of the Unicode database of the Python runtime, which is not part
  of the repository: \<open>unicode_lower\<close> (on whole strings, since the rule for the final
  sigma looks at the neighbours of a character) and \<open>unicode_isalnum\<close> stand for them
  and are left unspecified, so that every statement proved below holds whatever these
  tables are.
\<close>

type_synonym ustring = "nat list"

definition ustr :: "string \<Rightarrow> ustring" where
  "ustr s = map of_char s"

definition unicode_lower :: "ustring \<Rightarrow> ustring" where
  "unicode_lower = undefined"

definition unicode_isalnum :: "nat \<Rightarrow> bool" where
  "unicode_isalnum = undefined"

definition lower_cp :: "nat \<Rightarrow> nat" where
  "lower_cp c =
     (if (65 \<le> c \<and> c \<le> 90) \<or> (192 \<le> c \<and> c \<le> 214) \<or> (216 \<le> c \<and> c \<le> 222)
      then c + 32 else c)"

definition lower :: "ustring \<Rightarrow> ustring" where
  "lower s = (if list_all (\<lambda>c. c < 256) s then map lower_cp s else unicode_lower s)"

definition isspace :: "nat \<Rightarrow> bool" where
  "isspace c =
     ((9 \<le> c \<and> c \<le> 13) \<or> (28 \<le> c \<and> c \<le> 32) \<or> c = 133 \<or> c = 160 \<or> c = 5760 \<or>
      (8192 \<le> c \<and> c \<le> 8202) \<or> c = 8232 \<or> c = 8233 \<or> c = 8239 \<or> c = 8287 \<or>
      c = 12288)"

definition isalnum :: "nat \<Rightarrow> bool" where
  "isalnum c =
     (if c < 256 then
        ((48 \<le> c \<and> c \<le> 57) \<or> (65 \<le> c \<and> c \<le> 90) \<or> (97 \<le> c \<and> c \<le> 122) \<or>
         c = 170 \<or> c = 178 \<or> c = 179 \<or> c = 181 \<or> c = 185 \<or> c = 186 \<or>
         (188 \<le> c \<and> c \<le> 190) \<or> (192 \<le> c \<and> c \<le> 214) \<or> (216 \<le> c \<and> c \<le> 246) \<or>
         (248 \<le> c \<and> c \<le> 255))
      else unicode_isalnum c)"

text \<open>\<^verbatim>\<open>s.startswith(p)\<close>\<close>

fun startswith :: "'a list \<Rightarrow> 'a list \<Rightarrow> bool" where
  "startswith s [] = True"
| "startswith [] (p # ps) = False"
| "startswith (c # s) (p # ps) = (c = p \<and> startswith s ps)"

text \<open>\<^verbatim>\<open>sub in s\<close>: \<open>sub\<close> occurs in \<open>s\<close> as a contiguous substring.\<close>

fun contains :: "'a list \<Rightarrow> 'a list \<Rightarrow> bool" where
  "contains [] sub = (sub = [])"
| "contains (c # s) sub = (startswith (c # s) sub \<or> contains s sub)"

text \<open>\<^verbatim>\<open>s.strip()\<close>: whitespace is removed at both ends.\<close>

definition strip :: "ustring \<Rightarrow> ustring" where
  "strip s = rev (dropWhile isspace (rev (dropWhile isspace s)))"

text \<open>
  \<^verbatim>\<open>s.replace(old, new)\<close>: every occurrence of \<open>old\<close>, found from the left and not
  overlapping, is replaced. For an empty \<open>old\<close> Python puts \<open>new\<close> before every
  character and at the end.
\<close>

fun replace :: "'a list \<Rightarrow> 'a list \<Rightarrow> 'a list \<Rightarrow> 'a list" where
  "replace [] old new = (if old = [] then new else [])"
| "replace (c # s) old new =
     (if old = [] then new @ c # replace s old new
      else if startswith (c # s) old then new @ replace (drop (length old - 1) s) old new
      else c # replace s old new)"

text \<open>\<^verbatim>\<open>s.split('\n')\<close>: the pieces between line feeds; never an empty list.\<close>

fun split_lines :: "ustring \<Rightarrow> ustring list" where
  "split_lines [] = [[]]"
| "split_lines (c # s) =
     (if c = 10 then [] # split_lines s
      else (case split_lines s of
              [] \<Rightarrow> [[c]]
            | l # ls \<Rightarrow> (c # l) # ls))"

text \<open>\<^verbatim>\<open>any(p(x) for x in xs)\<close> is \<^const>\<open>list_ex\<close>.\<close>

section \<open>Relevance classifiers\<close>

subsection \<open>medicare\_access\_monitor\_github.py\<close>

definition KEYWORDS :: "ustring list" where
  "KEYWORDS = map ustr
     [''ACCESS'', ''ACO REACH'', ''Medicare Advantage'',
      ''CMS Innovation Center'', ''CMMI'',
      ''Medicare Part D'', ''medication therapy management'', ''MTM'',
      ''value-based care'', ''risk adjustment'',
      ''Medicare payment'', ''Medicare policy'',
      ''star ratings'', ''quality measures'',
      ''beneficiary'', ''Medicare enrollment'',
      ''prescription drug coverage'', ''formulary'',
      ''prior authorization'', ''step therapy'']"

definition HIGH_PRIORITY :: "ustring list" where
  "HIGH_PRIORITY = map ustr
     [''ACCESS program'', ''ACO REACH'', ''CMMI'',
      ''medication therapy management'', ''MTM'',
      ''Part D'', ''prescription drug'']"

definition medicare_is_relevant_article :: "ustring \<Rightarrow> ustring \<Rightarrow> bool" where
  "medicare_is_relevant_article title summary =
     (let text = lower (title @ ustr '' '' @ summary);
          has_medicare = list_ex (\<lambda>term. contains text term)
                           (map ustr [''medicare'', ''cms'', ''centers for medicare''])
      in if \<not> has_medicare then False
         else if list_ex (\<lambda>term. contains text (lower term)) HIGH_PRIORITY then True
         else if list_ex (\<lambda>keyword. contains text (lower keyword)) KEYWORDS then True
         else False)"

subsection \<open>pharmacy\_ai\_monitor\_github.py\<close>

definition PHARMACY_KEYWORDS :: "ustring list" where
  "PHARMACY_KEYWORDS = map ustr
     [''medication'', ''pharmacy'', ''pharmacist'', ''drug'',
      ''prescription'', ''adherence'', ''MTM'', ''medication therapy management'',
      ''polypharmacy'', ''deprescribing'', ''drug interaction'',
      ''medication safety'', ''medication error'', ''adverse drug'',
      ''clinical pharmacy'', ''pharmaceutical care'',
      ''medication reconciliation'', ''medication review'']"

definition MEDICARE_KEYWORDS :: "ustring list" where
  "MEDICARE_KEYWORDS = map ustr
     [''Medicare'', ''ACCESS'', ''CMS'', ''Part D'',
      ''medication therapy management'', ''MTM'',
      ''star ratings'', ''Medicare Advantage'']"

definition exclude_terms :: "ustring list" where
  "exclude_terms = map ustr
     [''imaging'', ''radiology'', ''ultrasound'', ''surgery'', ''robot surgery'',
      ''diagnostic imaging'', ''pathology'', ''NASA'', ''space'']"

definition pharmacy_is_relevant_article :: "ustring \<Rightarrow> ustring \<Rightarrow> bool" where
  "pharmacy_is_relevant_article title summary =
     (let text = lower (title @ ustr '' '' @ summary)
      in if list_ex (\<lambda>keyword. contains text (lower keyword)) MEDICARE_KEYWORDS then True
         else
           let has_ai = list_ex (\<lambda>term. contains text term)
                          (map ustr [''ai'', ''artificial intelligence'', ''machine learning'',
                                     ''automation'', ''algorithm'']);
               has_pharmacy = list_ex (\<lambda>keyword. contains text (lower keyword)) PHARMACY_KEYWORDS
           in if has_ai \<and> has_pharmacy then True
              else if has_pharmacy \<and>
                      list_ex (\<lambda>term. contains text term)
                        (map ustr [''technology'', ''digital'', ''innovation'', ''system'',
                                   ''platform''])
                   then True
              else if list_ex (\<lambda>term. contains text term) exclude_terms then False
              else False)"

text \<open>
  The same function with the block under the comment
  \<^verbatim>\<open># Exclude non-pharmacy healthcare AI\<close> deleted: the last test and its
  \<^verbatim>\<open>return False\<close> are gone, the final \<^verbatim>\<open>return False\<close> stays.
\<close>

definition pharmacy_is_relevant_article_no_exclusion :: "ustring \<Rightarrow> ustring \<Rightarrow> bool" where
  "pharmacy_is_relevant_article_no_exclusion title summary =
     (let text = lower (title @ ustr '' '' @ summary)
      in if list_ex (\<lambda>keyword. contains text (lower keyword)) MEDICARE_KEYWORDS then True
         else
           let has_ai = list_ex (\<lambda>term. contains text term)
                          (map ustr [''ai'', ''artificial intelligence'', ''machine learning'',
                                     ''automation'', ''algorithm'']);
               has_pharmacy = list_ex (\<lambda>keyword. contains text (lower keyword)) PHARMACY_KEYWORDS
           in if has_ai \<and> has_pharmacy then True
              else if has_pharmacy \<and>
                      list_ex (\<lambda>term. contains text term)
                        (map ustr [''technology'', ''digital'', ''innovation'', ''system'',
                                   ''platform''])
                   then True
              else False)"

section \<open>Collecting articles\<close>

text \<open>
  A feed entry is a dictionary read with \<^verbatim>\<open>entry.get(key, default)\<close>: each field is
  present with a value or absent. The feed parser stores the key of a parsed time also
  when it could not parse the date, with the value \<^verbatim>\<open>None\<close>; so the two parsed-time
  fields have three states: absent (\<open>None\<close>), present without a time (\<open>Some None\<close>) and
  present with a time (\<open>Some (Some t)\<close>). The parsed times are time tuples that the
  source turns into a \<^verbatim>\<open>datetime\<close>; a \<^verbatim>\<open>datetime\<close> is modelled as the number of
  microseconds since a fixed origin, so that the difference of two of them is a
  \<^verbatim>\<open>timedelta\<close> and \<open>days\<close> is its attribute \<^verbatim>\<open>.days\<close>, the number of whole days
  rounded down.
\<close>

type_synonym datetime = int

definition days :: "int \<Rightarrow> int" where
  "days delta = delta div 86400000000"

record entry =
  entry_title :: "ustring option"
  entry_summary :: "ustring option"
  entry_description :: "ustring option"
  entry_link :: "ustring option"
  entry_published :: "ustring option"
  entry_updated :: "ustring option"
  published_parsed :: "datetime option option"
  updated_parsed :: "datetime option option"

record feed =
  entries :: "entry list"
  feed_title :: "ustring option"

text \<open>The article dictionary built in \<^verbatim>\<open>collect_articles\<close>, with its five keys.\<close>

record article =
  title :: ustring
  link :: ustring
  summary :: ustring
  published :: ustring
  source :: ustring

text \<open>A call of an external service returns a value or raises; \<open>Raised\<close> carries \<^verbatim>\<open>str(e)\<close>.\<close>

datatype 'a result = Raised ustring | Returned 'a

text \<open>\<^verbatim>\<open>d.get(key, default)\<close>\<close>

definition get :: "'a option \<Rightarrow> 'a \<Rightarrow> 'a" where
  "get field dflt = (case field of None \<Rightarrow> dflt | Some v \<Rightarrow> v)"

text \<open>
  The two arguments of the call \<^verbatim>\<open>is_relevant_article(title, summary)\<close> for an entry.
\<close>

definition classifier_args :: "entry \<Rightarrow> ustring \<times> ustring" where
  "classifier_args e =
     (get (entry_title e) [], get (entry_summary e) (get (entry_description e) []))"

text \<open>
  \<^verbatim>\<open>entry.get('published_parsed', entry.get('updated_parsed'))\<close>: the default is
  used only when the key \<^verbatim>\<open>published_parsed\<close> is absent. The result is a time or
  \<^verbatim>\<open>None\<close>, and the test \<^verbatim>\<open>if pub_date:\<close> holds for a time.
\<close>

definition pub_date :: "entry \<Rightarrow> datetime option" where
  "pub_date e =
     (case published_parsed e of
        Some v \<Rightarrow> v
      | None \<Rightarrow> (case updated_parsed e of None \<Rightarrow> None | Some v \<Rightarrow> v))"

definition make_article :: "feed \<Rightarrow> entry \<Rightarrow> article" where
  "make_article f e =
     \<lparr> title = fst (classifier_args e),
       link = get (entry_link e) [],
       summary = take 2000 (snd (classifier_args e)),
       published = get (entry_published e) (get (entry_updated e) (ustr ''Date unknown'')),
       source = get (feed_title f) (ustr ''Unknown source'') \<rparr>"

text \<open>
  The body of the loop over the entries of one feed: the article appended for the entry,
  or \<open>None\<close> when the entry is not relevant or the recency check skips it.
\<close>

definition process_entry ::
  "(ustring \<Rightarrow> ustring \<Rightarrow> bool) \<Rightarrow> datetime \<Rightarrow> feed \<Rightarrow> entry \<Rightarrow> article option" where
  "process_entry is_relevant_article now f e =
     (if is_relevant_article (fst (classifier_args e)) (snd (classifier_args e)) then
        (case pub_date e of
           Some pub_datetime \<Rightarrow>
             if days (now - pub_datetime) > 21 then None else Some (make_article f e)
         | None \<Rightarrow> Some (make_article f e))
      else None)"

text \<open>
  One round of the loop over \<^verbatim>\<open>RSS_FEEDS\<close>: a feed whose fetch raised, or that has no
  entries, adds nothing; otherwise the first \<open>K\<close> entries are processed.
\<close>

definition process_feed ::
  "nat \<Rightarrow> (ustring \<Rightarrow> ustring \<Rightarrow> bool) \<Rightarrow> datetime \<Rightarrow> feed result \<Rightarrow> article list" where
  "process_feed K is_relevant_article now r =
     (case r of
        Raised e \<Rightarrow> []
      | Returned f \<Rightarrow>
          if entries f = [] then []
          else List.map_filter (process_entry is_relevant_article now f) (take K (entries f)))"


subsection \<open>Removing duplicates\<close>

text \<open>
  \<^verbatim>\<open>re.sub(r'[^\w\s]', '', title.lower())\<close>: after lower-casing, every character that
  is neither a word character (alphanumeric or underscore) nor whitespace is removed.
\<close>

definition is_word :: "nat \<Rightarrow> bool" where
  "is_word c = (isalnum c \<or> c = 95)"

definition simple_title :: "ustring \<Rightarrow> ustring" where
  "simple_title t = filter (\<lambda>c. is_word c \<or> isspace c) (lower t)"

text \<open>
  The key as the specification words it, for comparison with \<open>simple_title\<close>: the
  lower-cased title without the characters that are neither alphanumeric nor whitespace.
  It differs from the key of the source on the underscore, which \<^verbatim>\<open>\w\<close> matches.
\<close>

definition spec_dedup_key :: "ustring \<Rightarrow> ustring" where
  "spec_dedup_key t = filter (\<lambda>c. isalnum c \<or> isspace c) (lower t)"

text \<open>
  The dictionary \<^verbatim>\<open>unique_articles\<close> keeps its keys in insertion order; it is an
  association list that grows at the end.
\<close>

fun dedup_loop :: "(ustring \<times> article) list \<Rightarrow> article list \<Rightarrow> (ustring \<times> article) list" where
  "dedup_loop unique_articles [] = unique_articles"
| "dedup_loop unique_articles (a # articles) =
     (if simple_title (title a) \<notin> set (map fst unique_articles)
      then dedup_loop (unique_articles @ [(simple_title (title a), a)]) articles
      else dedup_loop unique_articles articles)"

definition remove_duplicates :: "article list \<Rightarrow> article list" where
  "remove_duplicates articles = map snd (dedup_loop [] articles)"


subsection \<open>Ranking\<close>

text \<open>
  \<^verbatim>\<open>articles.sort(key=lambda x: x.get('published', ''), reverse=True)\<close>. Every article
  is built by \<open>make_article\<close> and has the key \<^verbatim>\<open>published\<close>, so the lookup returns the
  stored string. Python's sort is stable, and with \<^verbatim>\<open>reverse=True\<close> records with equal
  keys still keep their order: the list is reversed, sorted upwards, and reversed again.
\<close>

definition rank :: "article list \<Rightarrow> article list" where
  "rank articles = rev (sort_key published (rev articles))"

definition collect_articles ::
  "nat \<Rightarrow> (ustring \<Rightarrow> ustring \<Rightarrow> bool) \<Rightarrow> datetime \<Rightarrow> feed result list \<Rightarrow> article list" where
  "collect_articles K is_relevant_article now fetched =
     rank (remove_duplicates (concat (map (process_feed K is_relevant_article now) fetched)))"


text \<open>
  The two monitors: \<open>fetched\<close> holds the results of \<^verbatim>\<open>feedparser.parse\<close> for the
  addresses of \<^verbatim>\<open>RSS_FEEDS\<close>, in order.
\<close>

definition medicare_collect_articles :: "datetime \<Rightarrow> feed result list \<Rightarrow> article list" where
  "medicare_collect_articles now fetched =
     collect_articles 25 medicare_is_relevant_article now fetched"

definition pharmacy_collect_articles :: "datetime \<Rightarrow> feed result list \<Rightarrow> article list" where
  "pharmacy_collect_articles now fetched =
     collect_articles 20 pharmacy_is_relevant_article now fetched"

section \<open>Brief renderer\<close>

text \<open>
  \<^verbatim>\<open>create_html_email\<close> appends strings to \<^verbatim>\<open>html_parts\<close>. Each string appended
  while the synthesis text is processed is one of five shapes, which \<open>part\<close> names;
  \<open>html_of_part\<close> is the string that the source appends.
\<close>

datatype part =
    OpenList
  | CloseList
  | ListItem ustring
  | Heading ustring ustring
  | Paragraph ustring

definition html_of_part :: "part \<Rightarrow> ustring" where
  \<open>html_of_part p =
     (case p of
        OpenList \<Rightarrow> ustr ''<ul style="line-height: 1.6;">''
      | CloseList \<Rightarrow> ustr ''</ul>''
      | ListItem text \<Rightarrow> ustr ''<li>'' @ text @ ustr ''</li>''
      | Heading color section' \<Rightarrow>
          ustr ''<h2 style="color: '' @ color @ ustr ''; margin-top: 20px;">'' @ section' @
          ustr ''</h2>''
      | Paragraph line \<Rightarrow> ustr ''<p style="line-height: 1.6;">'' @ line @ ustr ''</p>'')\<close>

text \<open>The bullet glyph U+2022, and the warning sign U+26A0 with its variation selector.\<close>

definition bullet_glyph :: ustring where
  "bullet_glyph = [8226]"

definition warning_sign :: ustring where
  "warning_sign = [9888, 65039]"

definition is_bullet :: "ustring \<Rightarrow> bool" where
  "is_bullet line =
     (startswith line bullet_glyph \<or> startswith line (ustr ''-'') \<or> startswith line (ustr ''*''))"

text \<open>
  \<^verbatim>\<open>line[1:].strip().replace('**', '<strong>').replace('**', '</strong>')\<close>
\<close>

definition bullet_text :: "ustring \<Rightarrow> ustring" where
  "bullet_text line =
     replace (replace (strip (drop 1 line)) (ustr ''**'') (ustr ''<strong>''))
       (ustr ''**'') (ustr ''</strong>'')"

text \<open>\<^verbatim>\<open>line.replace('##', '').replace('#', '').strip()\<close>\<close>

definition section_title :: "ustring \<Rightarrow> ustring" where
  "section_title line = strip (replace (replace line (ustr ''##'') []) (ustr ''#'') [])"

subsection \<open>medicare\_access\_monitor\_github.py and pharmacy\_ai\_monitor\_github.py\<close>

definition is_section_header :: "ustring \<Rightarrow> bool" where
  "is_section_header line =
     (startswith line (ustr ''##'') \<or> contains line (ustr ''EXECUTIVE SUMMARY'') \<or>
      contains line (ustr ''KEY TAKEAWAYS'') \<or> contains line (ustr ''MILU STRATEGIC''))"

text \<open>
  The loop over the lines of the synthesis text, with the flag \<^verbatim>\<open>in_list\<close> as its
  state. The test after the loop (\<^verbatim>\<open>if in_list: html_parts.append('</ul>')\<close>) is the
  equation for the empty list.
\<close>

fun render_lines :: "bool \<Rightarrow> ustring list \<Rightarrow> part list" where
  "render_lines in_list [] = (if in_list then [CloseList] else [])"
| "render_lines in_list (raw # rest) =
     (let line = strip raw
      in if line = [] then render_lines in_list rest
         else if is_section_header line then
           (if in_list then [CloseList] else []) @
           Heading (ustr ''#0066cc'') (section_title line) # render_lines False rest
         else if is_bullet line then
           (if \<not> in_list then [OpenList] else []) @
           ListItem (bullet_text line) # render_lines True rest
         else
           (if in_list then [CloseList] else []) @
           Paragraph line # render_lines False rest)"

definition render_summary :: "ustring \<Rightarrow> part list" where
  "render_summary executive_summary = render_lines False (split_lines executive_summary)"

subsection \<open>merlin\_accuracy\_monitor.py\<close>

definition merlin_is_section_header :: "ustring \<Rightarrow> bool" where
  "merlin_is_section_header line =
     (startswith line (ustr ''##'') \<or> contains line (ustr ''EXECUTIVE SUMMARY'') \<or>
      contains line (ustr ''KEY METRICS'') \<or> contains line (ustr ''ANOMALIES'') \<or>
      contains line (ustr ''RECOMMENDATIONS''))"

definition concerning_words :: "ustring list" where
  "concerning_words = map ustr [''drop'', ''decline'', ''concern'', ''alert'', ''spike'', ''failure'']"

definition merlin_bullet_text :: "ustring \<Rightarrow> ustring" where
  \<open>merlin_bullet_text line =
     (let text = bullet_text line
      in if list_ex (\<lambda>word. contains (lower text) word) concerning_words
         then ustr ''<span style="color: #cc0000;">'' @ warning_sign @ ustr '' '' @ text @
              ustr ''</span>''
         else text)\<close>

fun merlin_render_lines :: "bool \<Rightarrow> ustring list \<Rightarrow> part list" where
  "merlin_render_lines in_list [] = (if in_list then [CloseList] else [])"
| "merlin_render_lines in_list (raw # rest) =
     (let line = strip raw
      in if line = [] then merlin_render_lines in_list rest
         else if merlin_is_section_header line then
           (let section' = section_title line;
                color = (if contains section' (ustr ''ANOMALIES'') then ustr ''#cc0000''
                         else ustr ''#0066cc'')
            in (if in_list then [CloseList] else []) @
               Heading color section' # merlin_render_lines False rest)
         else if is_bullet line then
           (if \<not> in_list then [OpenList] else []) @
           ListItem (merlin_bullet_text line) # merlin_render_lines True rest
         else
           (if in_list then [CloseList] else []) @
           Paragraph line # merlin_render_lines False rest)"

definition merlin_render_analysis :: "ustring \<Rightarrow> part list" where
  "merlin_render_analysis analysis = merlin_render_lines False (split_lines analysis)"

subsection \<open>Well-formed list structure\<close>

text \<open>
  \<open>lists_balanced opened ps\<close> reads the parts from the left with the flag ``a list is
  open''. It fails when a list is opened while one is open, when a list is closed while
  none is open, when an item stands outside a list, and when a list is still open at the
  end.
\<close>

fun lists_balanced :: "bool \<Rightarrow> part list \<Rightarrow> bool" where
  "lists_balanced opened [] = (\<not> opened)"
| "lists_balanced opened (OpenList # ps) = (\<not> opened \<and> lists_balanced True ps)"
| "lists_balanced opened (CloseList # ps) = (opened \<and> lists_balanced False ps)"
| "lists_balanced opened (ListItem text # ps) = (opened \<and> lists_balanced opened ps)"
| "lists_balanced opened (Heading color section' # ps) = lists_balanced opened ps"
| "lists_balanced opened (Paragraph line # ps) = lists_balanced opened ps"

section \<open>The e-mail document\<close>

text \<open>\<^verbatim>\<open>str(n)\<close> for a count or an ordinal, and \<^verbatim>\<open>sep.join(parts)\<close>.\<close>

function str_nat :: "nat \<Rightarrow> ustring" where
  "str_nat n = (if n < 10 then [48 + n] else str_nat (n div 10) @ [48 + n mod 10])"
  by pat_completeness auto
termination
  by (relation "measure id") auto

declare str_nat.simps [simp del]

fun join :: "ustring \<Rightarrow> ustring list \<Rightarrow> ustring" where
  "join sep [] = []"
| "join sep [x] = x"
| "join sep (x # y # ys) = x @ sep @ join sep (y # ys)"

text \<open>
  The parts appended before the synthesis text. \<open>week_ending\<close> is
  \<^verbatim>\<open>datetime.now().strftime("%B %d, %Y")\<close>; the headline and the focus line are the
  only texts in which the two feed monitors differ.
\<close>

definition header_parts :: "ustring \<Rightarrow> ustring \<Rightarrow> ustring \<Rightarrow> nat \<Rightarrow> ustring list" where
  \<open>header_parts headline focus week_ending n =
     [ustr ''<div style="font-family: Arial, sans-serif; font-size: 12pt; max-width: 800px;">'',
      ustr ''<h1 style="color: #0066cc; text-align: center;">'' @ headline @ ustr ''</h1>'',
      ustr ''<p style="text-align: center; color: #666; font-size: 11pt;">Week ending '' @
        week_ending @ ustr ''</p>'',
      ustr ''<p style="text-align: center; color: #666; font-size: 10pt; font-style: italic;">Articles analyzed: '' @
        str_nat n @ ustr '' | Focus: '' @ focus @ ustr ''</p>'',
      ustr ''<hr style="border: 1px solid #ddd; margin: 20px 0;">'']\<close>

text \<open>The five parts appended for the article with ordinal \<open>i\<close>.\<close>

definition article_reference :: "nat \<times> article \<Rightarrow> ustring list" where
  \<open>article_reference ia =
     (case ia of (i, article) \<Rightarrow>
       [ustr ''<div style="margin: 15px 0; padding: 10px; background: #f9f9f9; border-left: 3px solid #0066cc;">'',
        ustr ''<p style="margin: 5px 0;"><strong>'' @ str_nat i @ ustr ''. '' @ title article @
          ustr ''</strong></p>'',
        ustr ''<p style="margin: 5px 0; font-size: 10pt; color: #666;">'' @ source article @
          ustr '' | '' @ published article @ ustr ''</p>'',
        ustr ''<p style="margin: 5px 0; font-size: 10pt;"><a href="'' @ link article @
          ustr ''" style="color: #0066cc;">'' @ link article @ ustr ''</a></p>'',
        ustr ''</div>''])\<close>

text \<open>
  The article reference list: its three fixed parts, and the parts of
  \<^verbatim>\<open>for i, article in enumerate(articles, 1)\<close>.
\<close>

definition article_reference_list :: "article list \<Rightarrow> ustring list" where
  \<open>article_reference_list articles =
     [ustr ''<hr style="border: 1px solid #ddd; margin: 30px 0;">'',
      ustr ''<h2 style="color: #0066cc;">Article Reference List</h2>'',
      ustr ''<p style="font-style: italic; color: #666;">All articles analyzed this week:</p>''] @
     concat (map article_reference (zip [1..<Suc (length articles)] articles))\<close>

definition html_parts ::
  "ustring \<Rightarrow> ustring \<Rightarrow> ustring \<Rightarrow> ustring \<Rightarrow> article list \<Rightarrow> ustring list" where
  "html_parts headline focus week_ending executive_summary articles =
     header_parts headline focus week_ending (length articles) @
     map html_of_part (render_summary executive_summary) @
     article_reference_list articles @
     [ustr ''</div>'']"

definition create_html_email ::
  "ustring \<Rightarrow> ustring \<Rightarrow> ustring \<Rightarrow> ustring \<Rightarrow> article list \<Rightarrow> ustring" where
  "create_html_email headline focus week_ending executive_summary articles =
     join [10] (html_parts headline focus week_ending executive_summary articles)"

definition medicare_create_html_email :: "ustring \<Rightarrow> ustring \<Rightarrow> article list \<Rightarrow> ustring" where
  "medicare_create_html_email =
     create_html_email (ustr ''Medicare ACCESS Program Weekly Brief'')
       (ustr ''Medicare ACCESS, Policy Changes, MTM Programs'')"

definition pharmacy_create_html_email :: "ustring \<Rightarrow> ustring \<Rightarrow> article list \<Rightarrow> ustring" where
  "pharmacy_create_html_email =
     create_html_email (ustr ''Pharmacy & Medication Management AI Weekly Brief'')
       (ustr ''Medication Management, Medicare ACCESS, Clinical Pharmacy AI'')"

section \<open>The runs of the feed monitors\<close>

text \<open>
  The services a run calls are its environment: the clock, the feed parser, the
  text-generation service and the mail server. The request sent to the text-generation
  service is built from the articles alone, so its answer is a function of them;
  \<open>smtp_send\<close> is false when the delivery raises. What a run does to the two services of
  interest is recorded as a list of events.
\<close>

record world =
  clock :: datetime
  week_ending :: ustring
  feedparser_parse :: "ustring \<Rightarrow> feed result"
  messages_create :: "article list \<Rightarrow> ustring result"
  smtp_send :: "ustring \<Rightarrow> bool"

datatype 'a event = Synthesis "'a list" | Delivery ustring nat

datatype outcome = NothingToReport | Emailed | SendFailed | Crashed ustring

definition medicare_RSS_FEEDS :: "ustring list" where
  "medicare_RSS_FEEDS = map ustr
     [''https://www.cms.gov/newsroom/rss-feeds'',
      ''https://www.fiercehealthcare.com/rss.xml'',
      ''https://www.modernhealthcare.com/rss'',
      ''https://www.healthcaredive.com/feeds/news/'',
      ''https://khn.org/feed/'',
      ''https://www.healthaffairs.org/do/10.1377/hp.rss/full/'',
      ''https://www.ama-assn.org/rss/news.xml'']"

definition pharmacy_RSS_FEEDS :: "ustring list" where
  "pharmacy_RSS_FEEDS = map ustr
     [''https://www.pharmacytimes.com/rss'',
      ''https://www.pharmacist.com/RSS'',
      ''https://www.healthcareitnews.com/rss/artificial-intelligence'',
      ''https://www.mobihealthnews.com/feed'',
      ''https://www.fiercehealthcare.com/rss.xml'',
      ''https://www.modernhealthcare.com/section/technology?rss=1'',
      ''https://healthitanalytics.com/feed'',
      ''https://medcitynews.com/feed/'']"

text \<open>
  \<^verbatim>\<open>create_executive_summary\<close>: the call of the service stands in a
  \<^verbatim>\<open>try\<close>; when it raises, the function returns the error text as its summary.
\<close>

definition create_executive_summary :: "world \<Rightarrow> article list \<Rightarrow> ustring" where
  "create_executive_summary w articles =
     (case messages_create w articles of
        Returned text \<Rightarrow> text
      | Raised e \<Rightarrow> ustr ''Error creating executive summary: '' @ e)"

text \<open>
  \<^verbatim>\<open>main\<close>, from the collected articles on: the events of the run and its outcome.
\<close>

definition run_brief ::
  "(ustring \<Rightarrow> ustring \<Rightarrow> article list \<Rightarrow> ustring) \<Rightarrow> world \<Rightarrow> article list \<Rightarrow>
   article event list \<times> outcome" where
  "run_brief create_html w articles =
     (if articles = [] then ([], NothingToReport)
      else
        let executive_summary = create_executive_summary w articles;
            html_content = create_html (week_ending w) executive_summary articles;
            success = smtp_send w html_content
        in ([Synthesis articles, Delivery html_content (length articles)],
            if success then Emailed else SendFailed))"

definition medicare_main :: "world \<Rightarrow> article event list \<times> outcome" where
  "medicare_main w =
     run_brief medicare_create_html_email w
       (medicare_collect_articles (clock w) (map (feedparser_parse w) medicare_RSS_FEEDS))"

definition pharmacy_main :: "world \<Rightarrow> article event list \<times> outcome" where
  "pharmacy_main w =
     run_brief pharmacy_create_html_email w
       (pharmacy_collect_articles (clock w) (map (feedparser_parse w) pharmacy_RSS_FEEDS))"

section \<open>The metrics monitor\<close>

subsection \<open>Reading the rows of the sheet\<close>

text \<open>
  \<^verbatim>\<open>int(s)\<close> on a string: whitespace around the number is ignored, a sign may come
  first, and single underscores may stand between digits; anything else raises
  \<^verbatim>\<open>ValueError\<close>, which is \<open>None\<close> here. Digits are the ASCII digits; the limit that
  recent interpreters put on the number of digits is not modelled.
\<close>

definition isdigit :: "nat \<Rightarrow> bool" where
  "isdigit c = (48 \<le> c \<and> c \<le> 57)"

fun int_digits :: "int \<Rightarrow> ustring \<Rightarrow> int option" where
  "int_digits acc [] = Some acc"
| "int_digits acc [c] = (if isdigit c then Some (acc * 10 + int (c - 48)) else None)"
| "int_digits acc (c # d # s) =
     (if isdigit c then int_digits (acc * 10 + int (c - 48)) (d # s)
      else if c = 95 \<and> isdigit d then int_digits (acc * 10 + int (d - 48)) s
      else None)"

definition py_int :: "ustring \<Rightarrow> int option" where
  "py_int s =
     (case strip s of
        [] \<Rightarrow> None
      | c # r \<Rightarrow>
          if c = 45 then
            (case r of
               [] \<Rightarrow> None
             | d # r' \<Rightarrow> if isdigit d then map_option uminus (int_digits (int (d - 48)) r')
                         else None)
          else if c = 43 then
            (case r of
               [] \<Rightarrow> None
             | d # r' \<Rightarrow> if isdigit d then int_digits (int (d - 48)) r' else None)
          else if isdigit c then int_digits (int (c - 48)) r
          else None)"

text \<open>\<^verbatim>\<open>int(row[i]) if row[i] else 0\<close>\<close>

definition cell_int :: "ustring \<Rightarrow> int option" where
  "cell_int cell = (if cell = [] then Some 0 else py_int cell)"

record metrics =
  date :: ustring
  ascvd_correct :: int
  ascvd_incorrect :: int
  drug_interactions_detected :: int
  drug_interactions_missed :: int
  false_positives :: int
  allergy_failures :: int
  notes' :: ustring

text \<open>
  The dictionary built inside the \<^verbatim>\<open>try\<close>, for a row that has at least seven
  columns; \<open>None\<close> when one of the conversions raises \<^verbatim>\<open>ValueError\<close>.
\<close>

definition make_record :: "ustring list \<Rightarrow> metrics option" where
  "make_record row =
     (case cell_int (row ! 1) of None \<Rightarrow> None | Some c1 \<Rightarrow>
      case cell_int (row ! 2) of None \<Rightarrow> None | Some c2 \<Rightarrow>
      case cell_int (row ! 3) of None \<Rightarrow> None | Some c3 \<Rightarrow>
      case cell_int (row ! 4) of None \<Rightarrow> None | Some c4 \<Rightarrow>
      case cell_int (row ! 5) of None \<Rightarrow> None | Some c5 \<Rightarrow>
      case cell_int (row ! 6) of None \<Rightarrow> None | Some c6 \<Rightarrow>
        Some \<lparr> date = row ! 0,
               ascvd_correct = c1,
               ascvd_incorrect = c2,
               drug_interactions_detected = c3,
               drug_interactions_missed = c4,
               false_positives = c5,
               allergy_failures = c6,
               notes' = (if length row > 7 then row ! 7 else []) \<rparr>)"

text \<open>
  What the loop prints: the warning for a row whose conversion raised, and the final
  count.
\<close>

datatype printed = SkippingInvalidRow "ustring list" | FoundWeeks nat

text \<open>
  The body of the loop over \<^verbatim>\<open>data_rows\<close> for one row: the record appended, if any,
  and the lines printed.
\<close>

definition process_row :: "ustring list \<Rightarrow> metrics option \<times> printed list" where
  "process_row row =
     (if length row \<ge> 7 then
        (case make_record row of
           Some record' \<Rightarrow> (Some record', [])
         | None \<Rightarrow> (None, [SkippingInvalidRow row]))
      else (None, []))"

fun process_rows :: "ustring list list \<Rightarrow> metrics list \<times> printed list" where
  "process_rows [] = ([], [])"
| "process_rows (row # data_rows) =
     (case process_row row of (r, out) \<Rightarrow>
        case process_rows data_rows of (records, out') \<Rightarrow>
          ((case r of None \<Rightarrow> records | Some record' \<Rightarrow> record' # records), out @ out'))"

text \<open>
  \<^verbatim>\<open>read_sheet_data\<close> on the rows returned by the sheet: \<open>None\<close> when there are fewer
  than two rows, else the records of the rows after the header row.
\<close>

definition read_sheet_data :: "ustring list list \<Rightarrow> metrics list option \<times> printed list" where
  "read_sheet_data values =
     (if values = [] \<or> length values < 2 then (None, [])
      else
        (case process_rows (drop 1 values) of (records, out) \<Rightarrow>
           (Some records, out @ [FoundWeeks (length records)])))"

subsection \<open>The report and the run\<close>

definition SHEET_ID :: ustring where
  "SHEET_ID = ustr ''1PGYgCJf-_m8OnrXT3V2aX_X3DTjxqeahieNmqWtl6ok''"

definition merlin_html_parts :: "ustring \<Rightarrow> ustring \<Rightarrow> nat \<Rightarrow> ustring list" where
  \<open>merlin_html_parts week_ending' analysis num_weeks =
     [ustr ''<div style="font-family: Arial, sans-serif; font-size: 12pt; max-width: 800px;">'',
      ustr ''<h1 style="color: #cc0000; text-align: center;">'' @ warning_sign @
        ustr '' Merlin Accuracy Weekly Report</h1>'',
      ustr ''<p style="text-align: center; color: #666; font-size: 11pt;">Week ending '' @
        week_ending' @ ustr ''</p>'',
      ustr ''<p style="text-align: center; color: #666; font-size: 10pt; font-style: italic;">Analyzing '' @
        str_nat num_weeks @ ustr '' weeks of data</p>'',
      ustr ''<hr style="border: 1px solid #ddd; margin: 20px 0;">''] @
     map html_of_part (merlin_render_analysis analysis) @
     [ustr ''<hr style="border: 1px solid #ddd; margin: 30px 0;">'',
      ustr ''<p style="font-size: 10pt; color: #666;">Data source: <a href="https://docs.google.com/spreadsheets/d/'' @
        SHEET_ID @
        ustr ''" style="color: #0066cc;">Merlin Accuracy Tracking Google Sheet</a></p>'',
      ustr ''</div>'']\<close>

definition merlin_create_html_email :: "ustring \<Rightarrow> ustring \<Rightarrow> nat \<Rightarrow> ustring" where
  "merlin_create_html_email week_ending' analysis num_weeks =
     join [10] (merlin_html_parts week_ending' analysis num_weeks)"

text \<open>
  The environment of the metrics run: \<open>sheet_values\<close> is the outcome of the
  authenticated read of the range \<^verbatim>\<open>A:H\<close>, with \<^verbatim>\<open>result.get('values', [])\<close> applied.
\<close>

record sheet_world =
  sheet_week_ending :: ustring
  sheet_values :: "ustring list list result"
  sheet_messages_create :: "metrics list \<Rightarrow> ustring result"
  sheet_smtp_send :: "ustring \<Rightarrow> bool"

definition analyze_metrics :: "sheet_world \<Rightarrow> metrics list \<Rightarrow> ustring" where
  "analyze_metrics w records =
     (case sheet_messages_create w records of
        Returned text \<Rightarrow> text
      | Raised e \<Rightarrow> ustr ''Error analyzing metrics: '' @ e)"

text \<open>
  \<^verbatim>\<open>main\<close>: an exception of the read is caught by the handler of \<^verbatim>\<open>main\<close>;
  \<^verbatim>\<open>not records\<close> holds for \<^verbatim>\<open>None\<close> and for the empty list.
\<close>

definition merlin_main :: "sheet_world \<Rightarrow> metrics event list \<times> printed list \<times> outcome" where
  "merlin_main w =
     (case sheet_values w of
        Raised e \<Rightarrow> ([], [], Crashed e)
      | Returned values \<Rightarrow>
          (case read_sheet_data values of
             (None, out) \<Rightarrow> ([], out, NothingToReport)
           | (Some records, out) \<Rightarrow>
               if records = [] then ([], out, NothingToReport)
               else
                 let analysis = analyze_metrics w records;
                     html_content =
                       merlin_create_html_email (sheet_week_ending w) analysis (length records);
                     success = sheet_smtp_send w html_content
                 in ([Synthesis records, Delivery html_content (length records)], out,
                     if success then Emailed else SendFailed)))"

section \<open>The daily insight run\<close>

text \<open>
  \<^verbatim>\<open>daily_leadership.py\<close> collects nothing: it asks the text-generation service for one
  text and sends it. Neither \<^verbatim>\<open>generate_leadership_insight\<close> nor \<^verbatim>\<open>send_email\<close> has
  a \<^verbatim>\<open>try\<close>, so an exception of a service is the exception of the function; the
  handler of \<^verbatim>\<open>main\<close> prints the error and raises it again.
\<close>

record daily_world =
  daily_messages_create :: "ustring result"
  daily_smtp_send :: "ustring \<Rightarrow> unit result"

datatype daily_event = InsightRequested | InsightDelivery ustring

definition generate_leadership_insight :: "daily_world \<Rightarrow> ustring result" where
  "generate_leadership_insight w = daily_messages_create w"

definition daily_send_email :: "daily_world \<Rightarrow> ustring \<Rightarrow> unit result" where
  "daily_send_email w content = daily_smtp_send w content"

definition daily_main :: "daily_world \<Rightarrow> daily_event list \<times> outcome" where
  "daily_main w =
     (case generate_leadership_insight w of
        Raised e \<Rightarrow> ([InsightRequested], Crashed e)
      | Returned content \<Rightarrow>
          (case daily_send_email w content of
             Raised e \<Rightarrow> ([InsightRequested, InsightDelivery content], Crashed e)
           | Returned u \<Rightarrow> ([InsightRequested, InsightDelivery content], Emailed)))"

section \<open>Example inputs\<close>

text \<open>
  Three entries that the Medicare classifier accepts: one with a publication string and
  a parsed time, one with neither, and one with no title.
\<close>

definition ex_dated :: entry where
  "ex_dated =
     \<lparr> entry_title = Some (ustr ''CMS CMMI pilot''), entry_summary = Some (ustr ''New model''),
       entry_description = None, entry_link = Some (ustr ''https://cms.example/a''),
       entry_published = Some (ustr ''2024-01-15''), entry_updated = None,
       published_parsed = Some (Some 0), updated_parsed = None \<rparr>"

definition ex_undated :: entry where
  "ex_undated =
     \<lparr> entry_title = Some (ustr ''CMS MTM rule''), entry_summary = None,
       entry_description = None, entry_link = None,
       entry_published = None, entry_updated = None,
       published_parsed = None, updated_parsed = None \<rparr>"

definition ex_untitled :: entry where
  "ex_untitled =
     \<lparr> entry_title = None, entry_summary = Some (ustr ''CMS CMMI''),
       entry_description = None, entry_link = None,
       entry_published = None, entry_updated = None,
       published_parsed = None, updated_parsed = None \<rparr>"

text \<open>
  An entry whose publication date the feed parser could not parse, so that the key
  \<^verbatim>\<open>published_parsed\<close> holds \<^verbatim>\<open>None\<close>, beside a parsed update time; and a second
  entry without a title.
\<close>

definition ex_unparsed :: entry where
  "ex_unparsed =
     \<lparr> entry_title = Some (ustr ''CMS MTM memo''), entry_summary = None,
       entry_description = None, entry_link = None,
       entry_published = Some (ustr ''last spring''), entry_updated = Some (ustr ''2020-01-01''),
       published_parsed = Some None, updated_parsed = Some (Some 0) \<rparr>"

definition ex_untitled2 :: entry where
  "ex_untitled2 =
     \<lparr> entry_title = Some [], entry_summary = Some (ustr ''CMS MTM''),
       entry_description = None, entry_link = None,
       entry_published = None, entry_updated = None,
       published_parsed = None, updated_parsed = None \<rparr>"

text \<open>An article with a given title.\<close>

definition ex_article :: "ustring \<Rightarrow> article" where
  "ex_article t =
     \<lparr> title = t, link = [], summary = [], published = ustr ''Date unknown'',
       source = ustr ''CMS'' \<rparr>"

definition ex_feed :: "entry list \<Rightarrow> feed" where
  "ex_feed es = \<lparr> entries = es, feed_title = Some (ustr ''CMS'') \<rparr>"

text \<open>
  Rows of the sheet: the header row, a row with three columns, a row with seven columns
  of which only the first and the last are filled, and a row with seven columns whose
  first counter is not a number.
\<close>

definition ex_header :: "ustring list" where
  "ex_header = map ustr [''Date'', ''ASCVD correct'']"

definition ex_short_row :: "ustring list" where
  "ex_short_row = map ustr [''2024-01-01'', ''5'', ''1'']"

definition ex_sparse_row :: "ustring list" where
  "ex_sparse_row = [ustr ''2024-01-08'', [], [], [], [], [], ustr ''2'']"

definition ex_invalid_row :: "ustring list" where
  "ex_invalid_row = [ustr ''2024-01-15'', ustr ''n/a'', [], [], [], [], ustr ''2'']"

text \<open>
  Three environments: one in which every fetch raises, one in which every address
  returns the feed of the undated entry and the text-generation service raises, and one
  for the metrics run whose sheet has the header row and the short row.
\<close>

definition ex_world_down :: world where
  "ex_world_down =
     \<lparr> clock = 0, week_ending = ustr ''January 16, 2024'',
       feedparser_parse = (\<lambda>url. Raised (ustr ''timeout'')),
       messages_create = (\<lambda>articles. Returned []),
       smtp_send = (\<lambda>html. True) \<rparr>"


definition ex_sheet_world :: sheet_world where
  "ex_sheet_world =
     \<lparr> sheet_week_ending = ustr ''January 16, 2024'',
       sheet_values = Returned [ex_header, ex_short_row],
       sheet_messages_create = (\<lambda>records. Returned []),
       sheet_smtp_send = (\<lambda>html. True) \<rparr>"

text \<open>
  Environments in which the text-generation service raises: for the metrics run on the
  sheet with the header row and the sparse row, and for the daily insight run.
\<close>

definition ex_sheet_world_degraded :: sheet_world where
  "ex_sheet_world_degraded =
     \<lparr> sheet_week_ending = ustr ''January 16, 2024'',
       sheet_values = Returned [ex_header, ex_sparse_row],
       sheet_messages_create = (\<lambda>records. Raised (ustr ''overloaded'')),
       sheet_smtp_send = (\<lambda>html. True) \<rparr>"

definition ex_daily_world_failing :: daily_world where
  "ex_daily_world_failing =
     \<lparr> daily_messages_create = Raised (ustr ''overloaded''),
       daily_smtp_send = (\<lambda>content. Returned ()) \<rparr>"

section \<open>Evaluation on concrete inputs\<close>

lemmas str_eval = ustr_def strip_def isspace_def isalnum_def lower_def lower_cp_def

lemmas render_eval = bullet_text_def merlin_bullet_text_def section_title_def is_bullet_def
  bullet_glyph_def warning_sign_def is_section_header_def merlin_is_section_header_def
  concerning_words_def render_summary_def merlin_render_analysis_def html_of_part_def Let_def

lemmas int_eval = py_int_def cell_int_def isdigit_def

lemmas medicare_eval = medicare_is_relevant_article_def HIGH_PRIORITY_def KEYWORDS_def Let_def

lemma ex_dated_relevant:
  "medicare_is_relevant_article (ustr ''CMS CMMI pilot'') (ustr ''New model'')"
  by (simp add: medicare_eval str_eval)

lemma ex_undated_relevant: "medicare_is_relevant_article (ustr ''CMS MTM rule'') []"
  by (simp add: medicare_eval str_eval)




lemma ex_classifier_args:
  "classifier_args ex_dated = (ustr ''CMS CMMI pilot'', ustr ''New model'')"
  "classifier_args ex_undated = (ustr ''CMS MTM rule'', [])"
  "classifier_args ex_untitled = ([], ustr ''CMS CMMI'')"
  "classifier_args ex_unparsed = (ustr ''CMS MTM memo'', [])"
  "classifier_args ex_untitled2 = ([], ustr ''CMS MTM'')"
  by (simp_all add: classifier_args_def get_def ex_dated_def ex_undated_def ex_untitled_def
      ex_unparsed_def ex_untitled2_def)

lemma ex_pub_date:
  "pub_date ex_dated = Some 0" "pub_date ex_undated = None" "pub_date ex_untitled = None"
  "pub_date ex_unparsed = None" "pub_date ex_untitled2 = None"
  by (simp_all add: pub_date_def ex_dated_def ex_undated_def ex_untitled_def
      ex_unparsed_def ex_untitled2_def)

lemma ex_process_undated:
  "process_entry medicare_is_relevant_article now (ex_feed es) ex_undated =
   Some (make_article (ex_feed es) ex_undated)"
  using ex_undated_relevant by (simp add: process_entry_def ex_classifier_args ex_pub_date)


lemma ex_articles:
  "make_article (ex_feed es) ex_dated =
     \<lparr> title = ustr ''CMS CMMI pilot'', link = ustr ''https://cms.example/a'',
       summary = ustr ''New model'', published = ustr ''2024-01-15'', source = ustr ''CMS'' \<rparr>"
  "make_article (ex_feed es) ex_undated =
     \<lparr> title = ustr ''CMS MTM rule'', link = [], summary = [],
       published = ustr ''Date unknown'', source = ustr ''CMS'' \<rparr>"
  "make_article (ex_feed es) ex_untitled =
     \<lparr> title = [], link = [], summary = ustr ''CMS CMMI'',
       published = ustr ''Date unknown'', source = ustr ''CMS'' \<rparr>"
  by (simp_all add: make_article_def classifier_args_def get_def ex_feed_def ex_dated_def
      ex_undated_def ex_untitled_def ustr_def)

section \<open>Properties of the renderer\<close>

lemma render_lines_balanced: "lists_balanced b (render_lines b ls)"
  by (induction ls arbitrary: b) (auto simp: Let_def)

lemma render_lines_count:
  "count_list (render_lines b ls) CloseList =
   count_list (render_lines b ls) OpenList + (if b then 1 else 0)"
  by (induction ls arbitrary: b) (auto simp: Let_def)

lemma merlin_render_lines_balanced: "lists_balanced b (merlin_render_lines b ls)"
  by (induction ls arbitrary: b) (auto simp: Let_def)

lemma merlin_render_lines_count:
  "count_list (merlin_render_lines b ls) CloseList =
   count_list (merlin_render_lines b ls) OpenList + (if b then 1 else 0)"
  by (induction ls arbitrary: b) (auto simp: Let_def)

text \<open>
  Claim C10. For every synthesis text, in all three renderers, the parts emitted for it
  close as many lists as they open, no list is opened while one is open, none is closed
  while none is open, and none is left open at the end, whether or not the text ends
  inside a run of bullet lines.
\<close>

theorem rendered_lists_balanced_never_nested:
  "lists_balanced False (render_summary text) \<and>
   count_list (render_summary text) CloseList = count_list (render_summary text) OpenList \<and>
   lists_balanced False (merlin_render_analysis text) \<and>
   count_list (merlin_render_analysis text) CloseList =
   count_list (merlin_render_analysis text) OpenList"
  unfolding render_summary_def merlin_render_analysis_def
  using render_lines_balanced [of False] render_lines_count [of False]
    merlin_render_lines_balanced [of False] merlin_render_lines_count [of False]
  by simp

text \<open>
  Claim C5. The claim asks that the closing marker of a \<^verbatim>\<open>**\<close> pair becomes a closing
  bold tag. The first \<^verbatim>\<open>replace\<close> of \<open>bullet_text\<close> rewrites every \<^verbatim>\<open>**\<close>, the
  closing one too, into the opening tag, and the second \<^verbatim>\<open>replace\<close> finds nothing
  left: the bullet line \<^verbatim>\<open>- **Key** point\<close> is rendered with two opening tags and no
  closing tag.
\<close>

theorem bold_pair_rendered_with_two_opening_tags:
  "bullet_text (ustr ''- **Key** point'') = ustr ''<strong>Key<strong> point'' \<and>
   map html_of_part (render_summary (ustr ''- **Key** point'')) =
     [html_of_part OpenList, ustr ''<li><strong>Key<strong> point</li>'', html_of_part CloseList] \<and>
   merlin_bullet_text (ustr ''- **Key** point'') = ustr ''<strong>Key<strong> point''"
  by (simp add: str_eval render_eval)

section \<open>Deduplication\<close>









text \<open>
  Against claim C2 as stated: the titles \<^verbatim>\<open>Part_D update\<close> and \<^verbatim>\<open>PartD update\<close> have
  one and the same key when every character that is neither alphanumeric nor whitespace
  is removed, as the claim words it; the source keeps the underscore, the two keys differ
  and both records are kept.
\<close>

theorem underscore_titles_both_kept_counterexample:
  "spec_dedup_key (ustr ''Part_D update'') = spec_dedup_key (ustr ''PartD update'') \<and>
   simple_title (ustr ''Part_D update'') = ustr ''part_d update'' \<and>
   simple_title (ustr ''PartD update'') = ustr ''partd update'' \<and>
   remove_duplicates [ex_article (ustr ''Part_D update''), ex_article (ustr ''PartD update'')] =
     [ex_article (ustr ''Part_D update''), ex_article (ustr ''PartD update'')]"
proof -
  have k: "simple_title (ustr ''Part_D update'') = ustr ''part_d update''"
    "simple_title (ustr ''PartD update'') = ustr ''partd update''"
    by (simp_all add: simple_title_def is_word_def str_eval)
  have "spec_dedup_key (ustr ''Part_D update'') = spec_dedup_key (ustr ''PartD update'')"
    by (simp add: spec_dedup_key_def str_eval)
  moreover have "remove_duplicates
       [ex_article (ustr ''Part_D update''), ex_article (ustr ''PartD update'')] =
     [ex_article (ustr ''Part_D update''), ex_article (ustr ''PartD update'')]"
    by (simp add: remove_duplicates_def ex_article_def k) (simp add: ustr_def)
  ultimately show ?thesis
    using k by simp
qed

section \<open>Ranking\<close>

lemma rank_descending: "sorted_wrt (\<lambda>a b. published b \<le> published a) (rank articles)"
proof -
  have "sorted (map published (sort_key published (rev articles)))"
    by (rule sorted_sort_key)
  then have "sorted_wrt (\<lambda>a b. published a \<le> published b) (sort_key published (rev articles))"
    by (simp add: sorted_wrt_map)
  then show ?thesis
    by (simp add: rank_def sorted_wrt_rev)
qed

lemma rank_mset: "mset (rank articles) = mset articles"
  by (simp add: rank_def)

lemma rank_stable:
  "filter (\<lambda>y. published y = k) (rank articles) = filter (\<lambda>y. published y = k) articles"
proof -
  have "filter (\<lambda>y. published y = k) (rank articles) =
        rev (filter (\<lambda>y. published y = k) (sort_key published (rev articles)))"
    by (simp add: rank_def rev_filter)
  also have "\<dots> = rev (filter (\<lambda>y. published y = k) (rev articles))"
    by (simp only: sort_key_stable)
  also have "\<dots> = filter (\<lambda>y. published y = k) articles"
    by (simp add: rev_filter)
  finally show ?thesis .
qed

lemma descending_block:
  assumes "sorted_wrt (\<lambda>a b. published b \<le> published a) xs"
    and "i \<le> j" "j \<le> k" "k < length xs"
    and "published (xs ! i) = published (xs ! k)"
  shows "published (xs ! j) = published (xs ! i)"
proof -
  have a: "published (xs ! j) \<le> published (xs ! i)"
    using assms(1-4) by (cases "i = j") (auto simp: sorted_wrt_iff_nth_less)
  have b: "published (xs ! k) \<le> published (xs ! j)"
    using assms(1-4) by (cases "j = k") (auto simp: sorted_wrt_iff_nth_less)
  show ?thesis using a b assms(5) by simp
qed

lemma unknown_date_literal:
  "published (make_article f (e\<lparr>entry_published := None, entry_updated := None\<rparr>)) =
   ustr ''Date unknown''"
  by (simp add: make_article_def get_def)

text \<open>
  Claim C1, as the code has it. The ranker orders the records by their publication string,
  greatest first; it keeps every record, and records with equal strings keep their
  order. The record built from an entry that has neither a \<^verbatim>\<open>published\<close> nor an
  \<^verbatim>\<open>updated\<close> value carries the literal \<^verbatim>\<open>Date unknown\<close> as its publication string,
  and that literal, not the empty string, is its sort key. Records with one and the same
  publication string, those of unknown date among them, stand in one contiguous block
  of the result.
\<close>

theorem ranker_orders_by_publication_string:
  "sorted_wrt (\<lambda>a b. published b \<le> published a) (rank articles) \<and>
   mset (rank articles) = mset articles \<and>
   (\<forall>s. filter (\<lambda>y. published y = s) (rank articles) = filter (\<lambda>y. published y = s) articles) \<and>
   published (make_article f (e\<lparr>entry_published := None, entry_updated := None\<rparr>)) =
     ustr ''Date unknown'' \<and>
   (\<forall>i j k. i \<le> j \<and> j \<le> k \<and> k < length (rank articles) \<and>
      published (rank articles ! i) = published (rank articles ! k) \<longrightarrow>
      published (rank articles ! j) = published (rank articles ! i))"
  using rank_descending [of articles] rank_mset [of articles] rank_stable [of _ articles]
    unknown_date_literal [of f e] descending_block [OF rank_descending, of _ _ _ articles]
  by blast

text \<open>
  The block of the three records of unknown date, in a list of four records, stands
  before the dated record.
\<close>

theorem ranker_orders_by_publication_string_witness:
  "(0::nat) \<le> 1 \<and> (1::nat) \<le> 2 \<and>
   2 < length (rank [make_article (ex_feed []) ex_undated, make_article (ex_feed []) ex_dated,
                     make_article (ex_feed []) ex_untitled, make_article (ex_feed []) ex_undated]) \<and>
   published (rank [make_article (ex_feed []) ex_undated, make_article (ex_feed []) ex_dated,
                    make_article (ex_feed []) ex_untitled, make_article (ex_feed []) ex_undated] ! 0) =
   published (rank [make_article (ex_feed []) ex_undated, make_article (ex_feed []) ex_dated,
                    make_article (ex_feed []) ex_untitled, make_article (ex_feed []) ex_undated] ! 2) \<and>
   published (rank [make_article (ex_feed []) ex_undated, make_article (ex_feed []) ex_dated,
                    make_article (ex_feed []) ex_untitled, make_article (ex_feed []) ex_undated] ! 1) =
   ustr ''Date unknown''"
proof -
  let ?xs = "[make_article (ex_feed []) ex_undated, make_article (ex_feed []) ex_dated,
              make_article (ex_feed []) ex_untitled, make_article (ex_feed []) ex_undated]"
  have r: "rank ?xs =
           [make_article (ex_feed []) ex_undated, make_article (ex_feed []) ex_untitled,
            make_article (ex_feed []) ex_undated, make_article (ex_feed []) ex_dated]"
    by (simp add: rank_def ex_articles ustr_def)
  have h: "(0::nat) \<le> 1 \<and> (1::nat) \<le> 2 \<and> 2 < length (rank ?xs) \<and>
           published (rank ?xs ! 0) = published (rank ?xs ! 2)"
    unfolding r by (simp add: ex_articles)
  have "\<forall>i j k. i \<le> j \<and> j \<le> k \<and> k < length (rank ?xs) \<and>
          published (rank ?xs ! i) = published (rank ?xs ! k) \<longrightarrow>
          published (rank ?xs ! j) = published (rank ?xs ! i)"
    using ranker_orders_by_publication_string [of ?xs "ex_feed []" ex_dated] by blast
  with h have "published (rank ?xs ! 1) = published (rank ?xs ! 0)"
    by blast
  then have "published (rank ?xs ! 1) = ustr ''Date unknown''"
    unfolding r by (simp add: ex_articles)
  with h show ?thesis by blast
qed

text \<open>
  Against claim C1 as stated: a feed with a dated entry and then an entry of unknown
  date. The record of unknown date is sorted by the literal \<^verbatim>\<open>Date unknown\<close>, which is
  not the empty string, and it comes first, before the record published
  \<^verbatim>\<open>2024-01-15\<close>: the high end of the order, not the low end.
\<close>

theorem unknown_date_sorts_by_literal_counterexample:
  "medicare_collect_articles 86400000000 [Returned (ex_feed [ex_dated, ex_undated])] =
     [make_article (ex_feed [ex_dated, ex_undated]) ex_undated,
      make_article (ex_feed [ex_dated, ex_undated]) ex_dated] \<and>
   published (make_article (ex_feed [ex_dated, ex_undated]) ex_undated) = ustr ''Date unknown'' \<and>
   published (make_article (ex_feed [ex_dated, ex_undated]) ex_undated) \<noteq> [] \<and>
   entry_published ex_undated = None \<and> entry_updated ex_undated = None"
proof -
  have "process_entry medicare_is_relevant_article 86400000000
          (ex_feed [ex_dated, ex_undated]) ex_dated =
        Some (make_article (ex_feed [ex_dated, ex_undated]) ex_dated)"
    using ex_dated_relevant
    by (simp add: process_entry_def ex_classifier_args ex_pub_date days_def)
  then have "process_feed 25 medicare_is_relevant_article 86400000000
          (Returned (ex_feed [ex_dated, ex_undated])) =
        [make_article (ex_feed [ex_dated, ex_undated]) ex_dated,
         make_article (ex_feed [ex_dated, ex_undated]) ex_undated]"
    using ex_process_undated [of 86400000000 "[ex_dated, ex_undated]"]
    by (simp add: process_feed_def List.map_filter_def ex_feed_def)
  then have "medicare_collect_articles 86400000000
               [Returned (ex_feed [ex_dated, ex_undated])] =
     [make_article (ex_feed [ex_dated, ex_undated]) ex_undated,
      make_article (ex_feed [ex_dated, ex_undated]) ex_dated]"
    by (simp add: medicare_collect_articles_def collect_articles_def ex_articles
        remove_duplicates_def simple_title_def is_word_def rank_def str_eval)
  moreover have "entry_published ex_undated = None \<and> entry_updated ex_undated = None"
    by (simp add: ex_undated_def)
  ultimately show ?thesis
    by (simp add: ex_articles ustr_def)
qed

section \<open>The recency check\<close>







section \<open>Entries without a title\<close>



lemma process_entry_result:
  "process_entry is_relevant_article now f e = Some a \<Longrightarrow> a = make_article f e"
  by (auto simp: process_entry_def split: if_splits option.splits)







section \<open>Rows of the metrics sheet\<close>

lemma process_rows_records:
  "fst (process_rows rows) = List.map_filter (\<lambda>row. fst (process_row row)) rows"
  by (induction rows) (auto simp: List.map_filter_def split: prod.splits option.splits)

lemma process_rows_printed:
  "snd (process_rows rows) = concat (map (\<lambda>row. snd (process_row row)) rows)"
  by (induction rows) (auto split: prod.splits option.splits)

lemma rejected_row_not_fatal:
  "fst (process_row row) = None \<Longrightarrow>
   fst (process_rows (before @ row # after)) = fst (process_rows (before @ after))"
  by (simp add: process_rows_records List.map_filter_def)

lemma make_record_Some_iff:
  "(make_record row \<noteq> None) =
   (cell_int (row ! 1) \<noteq> None \<and> cell_int (row ! 2) \<noteq> None \<and> cell_int (row ! 3) \<noteq> None \<and>
    cell_int (row ! 4) \<noteq> None \<and> cell_int (row ! 5) \<noteq> None \<and> cell_int (row ! 6) \<noteq> None)"
  by (auto simp: make_record_def split: option.splits)

lemma ex_short: "process_row ex_short_row = (None, [])"
  by (simp add: process_row_def ex_short_row_def)

lemma ex_sparse:
  "process_row ex_sparse_row =
     (Some \<lparr> date = ustr ''2024-01-08'', ascvd_correct = 0, ascvd_incorrect = 0,
             drug_interactions_detected = 0, drug_interactions_missed = 0,
             false_positives = 0, allergy_failures = 2, notes' = [] \<rparr>, [])"
  by (simp add: process_row_def ex_sparse_row_def make_record_def int_eval str_eval)

lemma ex_invalid: "process_row ex_invalid_row = (None, [SkippingInvalidRow ex_invalid_row])"
  by (simp add: process_row_def ex_invalid_row_def make_record_def int_eval str_eval)

text \<open>
  Claim C7, as the code has it. A row after the header row becomes a record exactly when
  it has at least seven columns and each of its columns 2 to 7 is empty, which counts as
  0, or converts to an integer. A row with fewer than seven columns is skipped and
  nothing is printed for it; a row with seven columns or more that does not convert is
  skipped with the warning. In both cases the rows before and after it are read as if
  the rejected row were not there.
\<close>

theorem row_becomes_record_iff_seven_columns_convert:
  "(fst (process_row row) \<noteq> None) =
     (7 \<le> length row \<and>
      cell_int (row ! 1) \<noteq> None \<and> cell_int (row ! 2) \<noteq> None \<and> cell_int (row ! 3) \<noteq> None \<and>
      cell_int (row ! 4) \<noteq> None \<and> cell_int (row ! 5) \<noteq> None \<and> cell_int (row ! 6) \<noteq> None) \<and>
   cell_int [] = Some 0 \<and>
   (length row < 7 \<longrightarrow> process_row row = (None, [])) \<and>
   (7 \<le> length row \<and> fst (process_row row) = None \<longrightarrow>
      snd (process_row row) = [SkippingInvalidRow row]) \<and>
   (fst (process_row row) = None \<longrightarrow>
      fst (process_rows (before @ row # after)) = fst (process_rows (before @ after)))"
proof -
  have "(fst (process_row row) \<noteq> None) = (7 \<le> length row \<and> make_record row \<noteq> None)"
    by (auto simp: process_row_def split: option.splits)
  moreover have "cell_int [] = Some 0"
    by (simp add: cell_int_def)
  moreover have "length row < 7 \<longrightarrow> process_row row = (None, [])"
    by (simp add: process_row_def)
  moreover have "7 \<le> length row \<and> fst (process_row row) = None \<longrightarrow>
      snd (process_row row) = [SkippingInvalidRow row]"
    by (auto simp: process_row_def split: option.splits)
  ultimately show ?thesis
    using rejected_row_not_fatal [of row before after] make_record_Some_iff [of row]
    by simp
qed

text \<open>
  The short row is skipped without a warning, the row with the counter \<^verbatim>\<open>n/a\<close> is
  skipped with the warning, and the rows around it are read.
\<close>

theorem row_becomes_record_iff_seven_columns_convert_witness:
  "length ex_short_row < 7 \<and> process_row ex_short_row = (None, []) \<and>
   7 \<le> length ex_invalid_row \<and> fst (process_row ex_invalid_row) = None \<and>
   snd (process_row ex_invalid_row) = [SkippingInvalidRow ex_invalid_row] \<and>
   fst (process_rows ([ex_sparse_row] @ ex_invalid_row # [ex_sparse_row])) =
   fst (process_rows ([ex_sparse_row] @ [ex_sparse_row]))"
proof -
  have h1: "length ex_short_row < 7"
    by (simp add: ex_short_row_def)
  have h2: "7 \<le> length ex_invalid_row \<and> fst (process_row ex_invalid_row) = None"
    by (simp add: ex_invalid) (simp add: ex_invalid_row_def)
  show ?thesis
    using h1 h2
      row_becomes_record_iff_seven_columns_convert [of ex_short_row "[]" "[]"]
      row_becomes_record_iff_seven_columns_convert
        [of ex_invalid_row "[ex_sparse_row]" "[ex_sparse_row]"]
    by blast
qed

text \<open>
  Against claim C7 as stated: for the sheet with the header row and the short row, the
  short row is skipped and no warning is printed, only the final count; and the row in
  which two of seven columns are filled becomes a record.
\<close>

theorem short_row_skipped_without_warning_counterexample:
  "length ex_short_row = 3 \<and>
   read_sheet_data [ex_header, ex_short_row] = (Some [], [FoundWeeks 0]) \<and>
   read_sheet_data [ex_header, ex_sparse_row] =
     (Some [\<lparr> date = ustr ''2024-01-08'', ascvd_correct = 0, ascvd_incorrect = 0,
              drug_interactions_detected = 0, drug_interactions_missed = 0,
              false_positives = 0, allergy_failures = 2, notes' = [] \<rparr>],
      [FoundWeeks 1])"
  by (simp add: read_sheet_data_def ex_short ex_sparse) (simp add: ex_short_row_def)

section \<open>Runs without records, and runs whose synthesis fails\<close>

lemma collect_nothing:
  "list_all (\<lambda>r. process_feed K is_relevant_article now r = []) fetched \<Longrightarrow>
   collect_articles K is_relevant_article now fetched = []"
proof -
  assume "list_all (\<lambda>r. process_feed K is_relevant_article now r = []) fetched"
  then have "concat (map (process_feed K is_relevant_article now) fetched) = []"
    by (induction fetched) auto
  then show ?thesis
    by (simp add: collect_articles_def remove_duplicates_def rank_def
        del: concat_eq_Nil_conv)
qed

lemma all_rows_rejected:
  "2 \<le> length values \<Longrightarrow> list_all (\<lambda>row. fst (process_row row) = None) (drop 1 values) \<Longrightarrow>
   fst (read_sheet_data values) = Some []"
proof -
  assume l: "2 \<le> length values"
    and r: "list_all (\<lambda>row. fst (process_row row) = None) (drop 1 values)"
  have "List.map_filter (\<lambda>row. fst (process_row row)) rows = []"
    if "list_all (\<lambda>row. fst (process_row row) = None) rows" for rows
    using that by (induction rows) (auto simp: List.map_filter_def)
  then have "fst (process_rows (drop 1 values)) = []"
    using r by (simp add: process_rows_records)
  then show ?thesis
    using l by (auto simp: read_sheet_data_def split: prod.splits)
qed

text \<open>
  Claim C8. When a feed monitor collects no article, and when the metrics monitor reads
  no record (fewer than two rows, or no row that becomes a record), the run ends with
  the outcome ``nothing to report'' and its list of events is empty: the text-generation
  service is not called and no delivery is attempted. No article is collected when every
  feed adds none, and no record is read when every row after the header is rejected.
\<close>

theorem no_records_run_ends_without_synthesis_or_delivery:
  "(medicare_collect_articles (clock w) (map (feedparser_parse w) medicare_RSS_FEEDS) = [] \<longrightarrow>
      medicare_main w = ([], NothingToReport)) \<and>
   (pharmacy_collect_articles (clock w) (map (feedparser_parse w) pharmacy_RSS_FEEDS) = [] \<longrightarrow>
      pharmacy_main w = ([], NothingToReport)) \<and>
   (sheet_values sw = Returned values \<and>
    (fst (read_sheet_data values) = None \<or> fst (read_sheet_data values) = Some []) \<longrightarrow>
      fst (merlin_main sw) = [] \<and> snd (snd (merlin_main sw)) = NothingToReport) \<and>
   (list_all (\<lambda>r. process_feed K is_relevant_article now r = []) fetched \<longrightarrow>
      collect_articles K is_relevant_article now fetched = []) \<and>
   (2 \<le> length values \<and> list_all (\<lambda>row. fst (process_row row) = None) (drop 1 values) \<longrightarrow>
      fst (read_sheet_data values) = Some [])"
proof -
  have "sheet_values sw = Returned values \<and>
    (fst (read_sheet_data values) = None \<or> fst (read_sheet_data values) = Some []) \<longrightarrow>
      fst (merlin_main sw) = [] \<and> snd (snd (merlin_main sw)) = NothingToReport"
    by (auto simp: merlin_main_def split: prod.splits option.splits)
  then show ?thesis
    using collect_nothing [of K is_relevant_article now fetched]
      all_rows_rejected [of "values"]
    by (simp add: medicare_main_def pharmacy_main_def run_brief_def)
qed

text \<open>
  The Medicare run in which every fetch raises, and the metrics run on the sheet with
  the header row and the short row.
\<close>

theorem no_records_run_ends_without_synthesis_or_delivery_witness:
  "medicare_collect_articles (clock ex_world_down)
     (map (feedparser_parse ex_world_down) medicare_RSS_FEEDS) = [] \<and>
   medicare_main ex_world_down = ([], NothingToReport) \<and>
   pharmacy_collect_articles (clock ex_world_down)
     (map (feedparser_parse ex_world_down) pharmacy_RSS_FEEDS) = [] \<and>
   pharmacy_main ex_world_down = ([], NothingToReport) \<and>
   sheet_values ex_sheet_world = Returned [ex_header, ex_short_row] \<and>
   fst (merlin_main ex_sheet_world) = [] \<and>
   snd (snd (merlin_main ex_sheet_world)) = NothingToReport \<and>
   list_all (\<lambda>r. process_feed 25 medicare_is_relevant_article 0 r = [])
     [Raised (ustr ''timeout''), Returned (ex_feed [])] \<and>
   collect_articles 25 medicare_is_relevant_article 0
     [Raised (ustr ''timeout''), Returned (ex_feed [])] = [] \<and>
   2 \<le> length [ex_header, ex_short_row] \<and>
   list_all (\<lambda>row. fst (process_row row) = None) (drop 1 [ex_header, ex_short_row]) \<and>
   fst (read_sheet_data [ex_header, ex_short_row]) = Some []"
proof -
  have h1: "medicare_collect_articles (clock ex_world_down)
              (map (feedparser_parse ex_world_down) medicare_RSS_FEEDS) = []"
    by (simp add: medicare_collect_articles_def collect_articles_def process_feed_def
        ex_world_down_def medicare_RSS_FEEDS_def remove_duplicates_def rank_def)
  have h2: "pharmacy_collect_articles (clock ex_world_down)
              (map (feedparser_parse ex_world_down) pharmacy_RSS_FEEDS) = []"
    by (simp add: pharmacy_collect_articles_def collect_articles_def process_feed_def
        ex_world_down_def pharmacy_RSS_FEEDS_def remove_duplicates_def rank_def)
  have h3: "sheet_values ex_sheet_world = Returned [ex_header, ex_short_row]"
    by (simp add: ex_sheet_world_def)
  have h4: "list_all (\<lambda>r. process_feed 25 medicare_is_relevant_article 0 r = [])
              [Raised (ustr ''timeout''), Returned (ex_feed [])]"
    by (simp add: process_feed_def ex_feed_def)
  have h5: "2 \<le> length [ex_header, ex_short_row] \<and>
            list_all (\<lambda>row. fst (process_row row) = None) (drop 1 [ex_header, ex_short_row])"
    by (simp add: ex_short)
  show ?thesis
    using h1 h2 h3 h4 h5
      no_records_run_ends_without_synthesis_or_delivery
        [of ex_world_down ex_sheet_world "[ex_header, ex_short_row]" 25
          medicare_is_relevant_article 0 "[Raised (ustr ''timeout''), Returned (ex_feed [])]"]
    by blast
qed






section \<open>The exclusion tier of the pharmacy classifier\<close>

text \<open>
  Claim C6. For every title and summary the pharmacy classifier returns the same boolean
  as the classifier with the exclusion tier deleted: when the test on \<open>exclude_terms\<close>
  is reached, both of its outcomes reject, so the tier never changes the result.
\<close>

theorem pharmacy_exclusion_tier_has_no_effect:
  "pharmacy_is_relevant_article t s = pharmacy_is_relevant_article_no_exclusion t s"
  unfolding pharmacy_is_relevant_article_def pharmacy_is_relevant_article_no_exclusion_def
  by (simp only: Let_def if_cancel)

end
